theory Spec2Isabelle
  imports Main "HOL-Library.Multiset"
begin

section \<open>Data model of the inventory ledger\<close>

text \<open>
  The device status ledger is a set of PL/pgSQL trigger functions and ledger-creation
  functions over the tables of the inventory schema. Tables are lists of rows in
  insertion order; \<^verbatim>\<open>INSERT\<close> appends. The columns \<^verbatim>\<open>id\<close> and \<^verbatim>\<open>created_at\<close> of the
  ledger tables are filled by their defaults (\<^verbatim>\<open>uuid_generate_v4()\<close>, \<^verbatim>\<open>NOW()\<close>) and are
  not written by any trigger; they only appear in the stored rows the read path sees.
  A raised exception or a violated column constraint is the \<open>Inl\<close> branch of the
  result: the enclosing statement is rolled back, so an error carries no new table.
  Column constraints \<^verbatim>\<open>NOT NULL\<close> and \<^verbatim>\<open>CHECK\<close> are part of the model. A foreign key is
  checked wherever an inserted identifier does not come from the row that fired the
  trigger: the arguments of the ledger-creation functions, and \<^verbatim>\<open>auth.uid()\<close>. The
  triggers \<^verbatim>\<open>trg_cellular_device_transaction\<close> and \<^verbatim>\<open>trg_serial_device_transaction\<close>
  insert the id and the user columns of the device row itself, which exists and whose
  own foreign keys to \<^verbatim>\<open>users\<close> already hold. Row-level security policies are not
  modelled; the functions run as their definer.
\<close>

type_synonym uuid = nat

datatype device_status =
  S_in_stock | S_sold | S_returned | S_quarantine | S_repair | S_qc_required | S_qc_failed

datatype transaction_type =
  T_purchase | T_sale | T_return_in | T_return_out | T_repair | T_qc | T_transfer

datatype error =
    Not_null_violation
  | Check_violation
  | Required_parameters_null
  | New_quantity_negative
  | Quantity_change_mismatch
  | Integer_out_of_range
  | Foreign_key_violation

text \<open>
  The columns of \<^verbatim>\<open>cellular_devices\<close> and \<^verbatim>\<open>serial_devices\<close> that the triggers read.
  \<^verbatim>\<open>id\<close>, \<^verbatim>\<open>status\<close>, \<^verbatim>\<open>repair_completed\<close>, \<^verbatim>\<open>created_by\<close> and \<^verbatim>\<open>updated_by\<close> are
  \<^verbatim>\<open>NOT NULL\<close> columns; \<^verbatim>\<open>qc_status\<close> and \<^verbatim>\<open>qc_comments\<close> are nullable text.
\<close>

record device_row =
  dev_id :: uuid
  status :: device_status
  qc_status :: "string option"
  qc_comments :: "string option"
  repair_completed :: bool
  dev_created_by :: uuid
  updated_by :: uuid

text \<open>
  The columns an \<^verbatim>\<open>INSERT\<close> into \<^verbatim>\<open>cellular_device_transactions\<close> or
  \<^verbatim>\<open>serial_device_transactions\<close> supplies. \<^verbatim>\<open>previous_status\<close> is nullable (its
  \<^verbatim>\<open>NOT NULL\<close> was dropped), \<^verbatim>\<open>notes\<close> is nullable, the others are \<^verbatim>\<open>NOT NULL\<close>.
\<close>

record device_transaction =
  device_id :: uuid
  transaction_type :: transaction_type
  reference_id :: uuid
  previous_status :: "device_status option"
  new_status :: device_status
  "notes" :: "string option"
  created_by :: uuid

record purchase_order_device =
  purchase_order_id :: uuid
  cellular_device_id :: "uuid option"
  serial_device_id :: "uuid option"

subsection \<open>SQL expressions with NULL\<close>

text \<open>
  A nullable SQL value is an \<open>option\<close>; a comparison with a NULL operand is NULL, and
  \<^verbatim>\<open>IF c THEN\<close> runs its branch only when \<open>c\<close> is true (neither false nor NULL).
\<close>

definition sql_ne :: "'a option \<Rightarrow> 'a option \<Rightarrow> bool option" where
  "sql_ne a b = (case a of None \<Rightarrow> None
                 | Some x \<Rightarrow> (case b of None \<Rightarrow> None | Some y \<Rightarrow> Some (x \<noteq> y)))"

definition sql_lt :: "int option \<Rightarrow> int option \<Rightarrow> bool option" where
  "sql_lt a b = (case a of None \<Rightarrow> None
                 | Some x \<Rightarrow> (case b of None \<Rightarrow> None | Some y \<Rightarrow> Some (x < y)))"

definition sql_and :: "bool option \<Rightarrow> bool option \<Rightarrow> bool option" where
  "sql_and a b =
     (if a = Some False \<or> b = Some False then Some False
      else if a = Some True \<and> b = Some True then Some True
      else None)"

definition sql_or :: "bool option \<Rightarrow> bool option \<Rightarrow> bool option" where
  "sql_or a b =
     (if a = Some True \<or> b = Some True then Some True
      else if a = Some False \<and> b = Some False then Some False
      else None)"

definition is_null :: "'a option \<Rightarrow> bool option" where
  "is_null a = Some (a = None)"

definition is_not_null :: "'a option \<Rightarrow> bool option" where
  "is_not_null a = Some (a \<noteq> None)"

definition sql_true :: "bool option \<Rightarrow> bool" where
  "sql_true c = (c = Some True)"

definition sql_concat :: "string option \<Rightarrow> string option \<Rightarrow> string option" where
  "sql_concat a b = (case a of None \<Rightarrow> None
                     | Some x \<Rightarrow> (case b of None \<Rightarrow> None | Some y \<Rightarrow> Some (x @ y)))"

definition coalesce :: "'a option \<Rightarrow> 'a \<Rightarrow> 'a option" where
  "coalesce a d = (case a of None \<Rightarrow> Some d | Some x \<Rightarrow> Some x)"

definition and_then :: "error + 'a \<Rightarrow> ('a \<Rightarrow> error + 'b) \<Rightarrow> error + 'b" where
  "and_then r f = (case r of Inl e \<Rightarrow> Inl e | Inr x \<Rightarrow> f x)"

subsection \<open>The device ledger tables\<close>

text \<open>
  \<^verbatim>\<open>INSERT INTO cellular_device_transactions (device_id, transaction_type, reference_id,
  previous_status, new_status, notes, created_by) VALUES (...)\<close>: the row is appended
  when every \<^verbatim>\<open>NOT NULL\<close> column has a value. The serial table has the same columns.
\<close>

definition insert_device_transaction ::
  "uuid option \<Rightarrow> transaction_type option \<Rightarrow> uuid option \<Rightarrow> device_status option \<Rightarrow>
   device_status option \<Rightarrow> string option \<Rightarrow> uuid option \<Rightarrow>
   device_transaction list \<Rightarrow> error + device_transaction list" where
  "insert_device_transaction dev ty ref prev new nt usr tbl =
     (case dev of None \<Rightarrow> Inl Not_null_violation | Some d \<Rightarrow>
     (case ty of None \<Rightarrow> Inl Not_null_violation | Some t \<Rightarrow>
     (case ref of None \<Rightarrow> Inl Not_null_violation | Some r \<Rightarrow>
     (case new of None \<Rightarrow> Inl Not_null_violation | Some n \<Rightarrow>
     (case usr of None \<Rightarrow> Inl Not_null_violation | Some u \<Rightarrow>
        Inr (tbl @ [\<lparr>device_id = d, transaction_type = t, reference_id = r,
                     previous_status = prev, new_status = n, notes = nt,
                     created_by = u\<rparr>]))))))"

subsection \<open>Trigger functions of the device tables\<close>

text \<open>
  The \<^verbatim>\<open>CASE\<close> on \<^verbatim>\<open>NEW.status\<close> that classifies a status change; the four trigger
  functions carry the same text.
\<close>

definition status_change_type :: "device_status \<Rightarrow> transaction_type" where
  "status_change_type s =
     (if s = S_sold then T_sale
      else if s = S_returned then T_return_in
      else if s = S_repair then T_repair
      else if s = S_qc_required then T_qc
      else T_transfer)"

text \<open>\<^verbatim>\<open>'QC ' || NEW.qc_status || ': ' || COALESCE(NEW.qc_comments, '')\<close>\<close>

definition qc_note :: "device_row \<Rightarrow> string option" where
  "qc_note NEW =
     sql_concat (sql_concat (sql_concat (Some ''QC '') (qc_status NEW)) (Some '': ''))
                (coalesce (qc_comments NEW) '''')"

text \<open>The \<^verbatim>\<open>CASE\<close> that synthesises the note of a status-change row.\<close>

definition status_change_note :: "device_row \<Rightarrow> string option" where
  "status_change_note NEW =
     (if status NEW = S_qc_required then
        (if sql_true (is_not_null (qc_status NEW)) then qc_note NEW else Some ''Pending QC'')
      else if status NEW = S_repair then
        (if repair_completed NEW then Some ''Repair completed'' else Some ''Repair required'')
      else None)"

text \<open>
  A row-level trigger is called with \<^verbatim>\<open>TG_OP = 'INSERT'\<close> and the new row, or with
  \<^verbatim>\<open>TG_OP = 'UPDATE'\<close> and the old and the new row.
\<close>

datatype trigger_event = TG_INSERT device_row | TG_UPDATE device_row device_row

text \<open>The three blocks of the update path, in the order of the source.\<close>

definition status_change_block ::
  "device_row \<Rightarrow> device_row \<Rightarrow> device_transaction list \<Rightarrow> error + device_transaction list" where
  "status_change_block OLD NEW tbl =
     (if sql_true (sql_ne (Some (status OLD)) (Some (status NEW))) then
        insert_device_transaction
          (Some (dev_id NEW))
          (Some (status_change_type (status NEW)))
          (Some (dev_id NEW))
          (Some (status OLD))
          (Some (status NEW))
          (status_change_note NEW)
          (Some (updated_by NEW))
          tbl
      else Inr tbl)"

definition qc_change_block ::
  "device_row \<Rightarrow> device_row \<Rightarrow> device_transaction list \<Rightarrow> error + device_transaction list" where
  "qc_change_block OLD NEW tbl =
     (if sql_true
           (sql_or (sql_and (is_null (qc_status OLD)) (is_not_null (qc_status NEW)))
                   (sql_and (is_not_null (qc_status OLD))
                            (sql_ne (qc_status NEW) (qc_status OLD)))) then
        insert_device_transaction
          (Some (dev_id NEW))
          (Some T_qc)
          (Some (dev_id NEW))
          (Some (status NEW))
          (Some (status NEW))
          (qc_note NEW)
          (Some (updated_by NEW))
          tbl
      else Inr tbl)"

definition repair_change_block ::
  "device_row \<Rightarrow> device_row \<Rightarrow> device_transaction list \<Rightarrow> error + device_transaction list" where
  "repair_change_block OLD NEW tbl =
     (if sql_true (sql_ne (Some (repair_completed OLD)) (Some (repair_completed NEW))) then
        insert_device_transaction
          (Some (dev_id NEW))
          (Some T_repair)
          (Some (dev_id NEW))
          (Some (status NEW))
          (Some (status NEW))
          (if repair_completed NEW then Some ''Repair completed'' else Some ''Repair started'')
          (Some (updated_by NEW))
          tbl
      else Inr tbl)"

text \<open>
  \<^verbatim>\<open>trg_cellular_device_transaction\<close> as the migration that creates the triggers defines
  it, attached \<^verbatim>\<open>AFTER INSERT OR UPDATE ON cellular_devices FOR EACH ROW\<close>. The first
  argument is the table \<^verbatim>\<open>purchase_order_devices\<close> as the trigger's \<^verbatim>\<open>EXISTS\<close> subquery
  finds it.
\<close>

fun trg_cellular_device_transaction ::
  "purchase_order_device list \<Rightarrow> trigger_event \<Rightarrow> device_transaction list \<Rightarrow>
   error + device_transaction list" where
  "trg_cellular_device_transaction pods (TG_INSERT NEW) tbl =
     insert_device_transaction
       (Some (dev_id NEW))
       (Some (if Some (dev_id NEW) \<in> set (map cellular_device_id pods)
              then T_purchase else T_transfer))
       (Some (dev_id NEW))
       None
       (Some (status NEW))
       (Some ''Device created'')
       (Some (dev_created_by NEW))
       tbl"
| "trg_cellular_device_transaction pods (TG_UPDATE OLD NEW) tbl =
     and_then (status_change_block OLD NEW tbl) (\<lambda>tbl1.
     and_then (qc_change_block OLD NEW tbl1) (\<lambda>tbl2.
     repair_change_block OLD NEW tbl2))"

text \<open>
  \<^verbatim>\<open>trg_serial_device_transaction\<close>, attached to \<^verbatim>\<open>serial_devices\<close>: the same body over
  \<^verbatim>\<open>serial_device_transactions\<close>, looking up \<^verbatim>\<open>serial_device_id\<close>.
\<close>

fun trg_serial_device_transaction ::
  "purchase_order_device list \<Rightarrow> trigger_event \<Rightarrow> device_transaction list \<Rightarrow>
   error + device_transaction list" where
  "trg_serial_device_transaction pods (TG_INSERT NEW) tbl =
     insert_device_transaction
       (Some (dev_id NEW))
       (Some (if Some (dev_id NEW) \<in> set (map serial_device_id pods)
              then T_purchase else T_transfer))
       (Some (dev_id NEW))
       None
       (Some (status NEW))
       (Some ''Device created'')
       (Some (dev_created_by NEW))
       tbl"
| "trg_serial_device_transaction pods (TG_UPDATE OLD NEW) tbl =
     and_then (status_change_block OLD NEW tbl) (\<lambda>tbl1.
     and_then (qc_change_block OLD NEW tbl1) (\<lambda>tbl2.
     repair_change_block OLD NEW tbl2))"




subsection \<open>Ledger-creation functions for devices\<close>

text \<open>
  The foreign keys of the two device ledgers. \<^verbatim>\<open>created_by\<close> references \<^verbatim>\<open>users(id)\<close> in
  both. \<^verbatim>\<open>serial_device_transactions.device_id\<close> references \<^verbatim>\<open>serial_devices(id)\<close>; the
  reference from \<^verbatim>\<open>cellular_device_transactions.device_id\<close> went with
  \<^verbatim>\<open>DROP TABLE cellular_devices CASCADE\<close> and is not created again. \<open>users\<close> and
  \<open>serial_devices\<close> are the ids present in these tables. A foreign key is checked on
  the inserted row, after its column constraints.
\<close>

definition insert_cellular_device_transaction ::
  "uuid list \<Rightarrow> uuid option \<Rightarrow> transaction_type option \<Rightarrow> uuid option \<Rightarrow>
   device_status option \<Rightarrow> device_status option \<Rightarrow> string option \<Rightarrow> uuid option \<Rightarrow>
   device_transaction list \<Rightarrow> error + device_transaction list" where
  "insert_cellular_device_transaction users dev ty ref prev new nt usr tbl =
     and_then (insert_device_transaction dev ty ref prev new nt usr tbl) (\<lambda>tbl'.
       if usr \<in> set (map Some users) then Inr tbl' else Inl Foreign_key_violation)"

definition insert_serial_device_transaction ::
  "uuid list \<Rightarrow> uuid list \<Rightarrow> uuid option \<Rightarrow> transaction_type option \<Rightarrow> uuid option \<Rightarrow>
   device_status option \<Rightarrow> device_status option \<Rightarrow> string option \<Rightarrow> uuid option \<Rightarrow>
   device_transaction list \<Rightarrow> error + device_transaction list" where
  "insert_serial_device_transaction users serial_devices dev ty ref prev new nt usr tbl =
     and_then (insert_device_transaction dev ty ref prev new nt usr tbl) (\<lambda>tbl'.
       if dev \<in> set (map Some serial_devices) \<and> usr \<in> set (map Some users) then Inr tbl'
       else Inl Foreign_key_violation)"

text \<open>
  \<^verbatim>\<open>fn_create_cellular_transaction(device_id, trans_type, ref_id, prev_status, new_status,
  notes, user_id)\<close>: raises \<^verbatim>\<open>'Required parameters cannot be null'\<close>, else inserts. The
  returned \<^verbatim>\<open>transaction_id\<close> is the default-generated \<^verbatim>\<open>id\<close>; the model returns the
  table.
\<close>

definition fn_create_cellular_transaction ::
  "uuid list \<Rightarrow> uuid option \<Rightarrow> transaction_type option \<Rightarrow> uuid option \<Rightarrow>
   device_status option \<Rightarrow> device_status option \<Rightarrow> string option \<Rightarrow> uuid option \<Rightarrow>
   device_transaction list \<Rightarrow> error + device_transaction list" where
  "fn_create_cellular_transaction users p_device_id trans_type ref_id prev_status p_new_status
       p_notes user_id tbl =
     (if p_device_id = None \<or> trans_type = None \<or> ref_id = None \<or> user_id = None then
        Inl Required_parameters_null
      else
        insert_cellular_device_transaction users p_device_id trans_type ref_id prev_status
          p_new_status p_notes user_id tbl)"

definition fn_create_serial_transaction ::
  "uuid list \<Rightarrow> uuid list \<Rightarrow> uuid option \<Rightarrow> transaction_type option \<Rightarrow> uuid option \<Rightarrow>
   device_status option \<Rightarrow> device_status option \<Rightarrow> string option \<Rightarrow> uuid option \<Rightarrow>
   device_transaction list \<Rightarrow> error + device_transaction list" where
  "fn_create_serial_transaction users serial_devices p_device_id trans_type ref_id prev_status
       p_new_status p_notes user_id tbl =
     (if p_device_id = None \<or> trans_type = None \<or> ref_id = None \<or> user_id = None then
        Inl Required_parameters_null
      else
        insert_serial_device_transaction users serial_devices p_device_id trans_type ref_id
          prev_status p_new_status p_notes user_id tbl)"

text \<open>
  \<^verbatim>\<open>trg_serial_device_status_change\<close>, attached to \<^verbatim>\<open>serial_devices\<close> by
  \<^verbatim>\<open>trg_after_serial_device_update\<close>, \<^verbatim>\<open>AFTER UPDATE OF status\<close>. \<open>auth_uid\<close> is the value of
  \<^verbatim>\<open>auth.uid()\<close>, NULL when the session has no authenticated user. Its cellular twin
  lost its trigger when \<^verbatim>\<open>cellular_devices\<close> was dropped and created again.
\<close>

definition trg_serial_device_status_change ::
  "uuid list \<Rightarrow> uuid list \<Rightarrow> uuid option \<Rightarrow> device_row \<Rightarrow> device_row \<Rightarrow>
   device_transaction list \<Rightarrow> error + device_transaction list" where
  "trg_serial_device_status_change users serial_devices auth_uid OLD NEW tbl =
     (if sql_true (sql_ne (Some (status OLD)) (Some (status NEW))) then
        fn_create_serial_transaction users serial_devices
          (Some (dev_id NEW))
          (Some (status_change_type (status NEW)))
          (Some (dev_id NEW))
          (Some (status OLD))
          (Some (status NEW))
          None
          auth_uid
          tbl
      else Inr tbl)"

subsection \<open>Updating a device row\<close>

text \<open>
  One row of an \<^verbatim>\<open>UPDATE\<close> of a device table: the row takes its new values, then every
  row-level \<^verbatim>\<open>AFTER UPDATE\<close> trigger of the table runs on the old and the new row, in the
  order of the trigger names; an error of a trigger rejects the update.

  \<^verbatim>\<open>cellular_devices\<close> has the trigger \<^verbatim>\<open>trg_cellular_device_transaction\<close>.
  \<^verbatim>\<open>serial_devices\<close> has two: \<^verbatim>\<open>trg_after_serial_device_update\<close>, which no migration
  drops, and \<^verbatim>\<open>trg_serial_device_transaction\<close>. The first is declared \<^verbatim>\<open>OF status\<close>; when
  the statement does not assign \<^verbatim>\<open>status\<close> the old and new status are equal and its
  function does nothing, so it is run for every update.
\<close>

definition update_cellular_device ::
  "purchase_order_device list \<Rightarrow> device_row \<Rightarrow> device_row \<Rightarrow> device_transaction list \<Rightarrow>
   error + (device_row \<times> device_transaction list)" where
  "update_cellular_device pods OLD NEW tbl =
     and_then (trg_cellular_device_transaction pods (TG_UPDATE OLD NEW) tbl)
              (\<lambda>tbl'. Inr (NEW, tbl'))"

definition update_serial_device ::
  "uuid list \<Rightarrow> uuid list \<Rightarrow> uuid option \<Rightarrow> purchase_order_device list \<Rightarrow>
   device_row \<Rightarrow> device_row \<Rightarrow> device_transaction list \<Rightarrow>
   error + (device_row \<times> device_transaction list)" where
  "update_serial_device users serial_devices auth_uid pods OLD NEW tbl =
     and_then (trg_serial_device_status_change users serial_devices auth_uid OLD NEW tbl)
       (\<lambda>tbl1.
     and_then (trg_serial_device_transaction pods (TG_UPDATE OLD NEW) tbl1) (\<lambda>tbl2.
       Inr (NEW, tbl2)))"

subsection \<open>The quantity ledgers of parts and accessories\<close>

text \<open>
  The columns of \<^verbatim>\<open>parts\<close> and \<^verbatim>\<open>accessories\<close> that the triggers read (\<^verbatim>\<open>id\<close> and
  \<^verbatim>\<open>quantity\<close>, an \<^verbatim>\<open>INTEGER NOT NULL\<close> with \<^verbatim>\<open>CHECK (quantity >= 0)\<close>), and the columns an
  insert into \<^verbatim>\<open>part_transactions\<close> or \<^verbatim>\<open>accessory_transactions\<close> supplies; \<open>item_ref\<close> is
  the column \<^verbatim>\<open>part_id\<close>, respectively \<^verbatim>\<open>accessory_id\<close>.
\<close>

record item_row =
  item_id :: uuid
  item_quantity :: int

record quantity_transaction =
  item_ref :: uuid
  qt_transaction_type :: transaction_type
  qt_reference_id :: uuid
  quantity :: int
  previous_quantity :: int
  new_quantity :: int
  qt_notes :: "string option"
  qt_created_by :: uuid

text \<open>
  \<^verbatim>\<open>INTEGER\<close> is a signed 32-bit type whose arithmetic raises \<^verbatim>\<open>integer out of range\<close>
  instead of wrapping; a NULL operand gives NULL.
\<close>

definition int4 :: "int \<Rightarrow> bool" where
  "int4 n \<longleftrightarrow> - 2147483648 \<le> n \<and> n \<le> 2147483647"

definition int4_minus :: "int option \<Rightarrow> int option \<Rightarrow> error + int option" where
  "int4_minus a b =
     (case a of None \<Rightarrow> Inr None
      | Some x \<Rightarrow> (case b of None \<Rightarrow> Inr None
                   | Some y \<Rightarrow> if int4 (x - y) then Inr (Some (x - y))
                               else Inl Integer_out_of_range))"

definition int4_abs :: "int option \<Rightarrow> error + int option" where
  "int4_abs a =
     (case a of None \<Rightarrow> Inr None
      | Some x \<Rightarrow> if int4 \<bar>x\<bar> then Inr (Some \<bar>x\<bar>) else Inl Integer_out_of_range)"

text \<open>
  \<^verbatim>\<open>CONSTRAINT valid_quantities CHECK (previous_quantity >= 0 AND new_quantity >= 0 AND
  ABS(new_quantity - previous_quantity) = ABS(quantity))\<close> on three \<^verbatim>\<open>NOT NULL\<close> columns.
\<close>

definition valid_quantities :: "int \<Rightarrow> int \<Rightarrow> int \<Rightarrow> error + bool" where
  "valid_quantities qty prev new =
     and_then (int4_minus (Some new) (Some prev)) (\<lambda>d.
     and_then (int4_abs d) (\<lambda>a.
     and_then (int4_abs (Some qty)) (\<lambda>b.
       Inr (prev \<ge> 0 \<and> new \<ge> 0 \<and> a = b))))"

definition insert_quantity_transaction ::
  "uuid option \<Rightarrow> transaction_type option \<Rightarrow> uuid option \<Rightarrow> int option \<Rightarrow> int option \<Rightarrow>
   int option \<Rightarrow> string option \<Rightarrow> uuid option \<Rightarrow>
   quantity_transaction list \<Rightarrow> error + quantity_transaction list" where
  "insert_quantity_transaction item ty ref qty prev new nt usr tbl =
     (case item of None \<Rightarrow> Inl Not_null_violation | Some i \<Rightarrow>
     (case ty of None \<Rightarrow> Inl Not_null_violation | Some t \<Rightarrow>
     (case ref of None \<Rightarrow> Inl Not_null_violation | Some r \<Rightarrow>
     (case qty of None \<Rightarrow> Inl Not_null_violation | Some q \<Rightarrow>
     (case prev of None \<Rightarrow> Inl Not_null_violation | Some p \<Rightarrow>
     (case new of None \<Rightarrow> Inl Not_null_violation | Some n \<Rightarrow>
     (case usr of None \<Rightarrow> Inl Not_null_violation | Some u \<Rightarrow>
        and_then (valid_quantities q p n) (\<lambda>ok.
          if ok then
            Inr (tbl @ [\<lparr>item_ref = i, qt_transaction_type = t, qt_reference_id = r,
                         quantity = q, previous_quantity = p, new_quantity = n,
                         qt_notes = nt, qt_created_by = u\<rparr>])
          else Inl Check_violation))))))))"

text \<open>
  The foreign keys of the quantity ledgers: \<^verbatim>\<open>part_id\<close> references \<^verbatim>\<open>parts(id)\<close>
  (\<^verbatim>\<open>accessory_id\<close> references \<^verbatim>\<open>accessories(id)\<close>) and \<^verbatim>\<open>created_by\<close> references
  \<^verbatim>\<open>users(id)\<close>. \<open>items\<close> are the ids present in \<^verbatim>\<open>parts\<close>, respectively \<^verbatim>\<open>accessories\<close>.
\<close>

definition insert_referenced_quantity_transaction ::
  "uuid list \<Rightarrow> uuid list \<Rightarrow> uuid option \<Rightarrow> transaction_type option \<Rightarrow> uuid option \<Rightarrow>
   int option \<Rightarrow> int option \<Rightarrow> int option \<Rightarrow> string option \<Rightarrow> uuid option \<Rightarrow>
   quantity_transaction list \<Rightarrow> error + quantity_transaction list" where
  "insert_referenced_quantity_transaction users items item ty ref qty prev new nt usr tbl =
     and_then (insert_quantity_transaction item ty ref qty prev new nt usr tbl) (\<lambda>tbl'.
       if item \<in> set (map Some items) \<and> usr \<in> set (map Some users) then Inr tbl'
       else Inl Foreign_key_violation)"

text \<open>
  \<^verbatim>\<open>fn_create_part_transaction(part_id, trans_type, ref_id, qty, prev_qty, new_qty, notes,
  user_id)\<close> and its twin for accessories: the three validations in the order of the
  source, then the insert.
\<close>

definition fn_create_part_transaction ::
  "uuid list \<Rightarrow> uuid list \<Rightarrow> uuid option \<Rightarrow> transaction_type option \<Rightarrow> uuid option \<Rightarrow>
   int option \<Rightarrow> int option \<Rightarrow> int option \<Rightarrow> string option \<Rightarrow> uuid option \<Rightarrow>
   quantity_transaction list \<Rightarrow> error + quantity_transaction list" where
  "fn_create_part_transaction users parts part_id trans_type ref_id qty prev_qty new_qty p_notes
       user_id tbl =
     (if part_id = None \<or> trans_type = None \<or> ref_id = None \<or> user_id = None then
        Inl Required_parameters_null
      else if sql_true (sql_lt new_qty (Some 0)) then
        Inl New_quantity_negative
      else
        and_then (int4_minus new_qty prev_qty) (\<lambda>d.
        and_then (int4_abs d) (\<lambda>a.
        and_then (int4_abs qty) (\<lambda>b.
          if sql_true (sql_ne a b) then Inl Quantity_change_mismatch
          else insert_referenced_quantity_transaction users parts part_id trans_type ref_id
                 qty prev_qty new_qty p_notes user_id tbl))))"

definition fn_create_accessory_transaction ::
  "uuid list \<Rightarrow> uuid list \<Rightarrow> uuid option \<Rightarrow> transaction_type option \<Rightarrow> uuid option \<Rightarrow>
   int option \<Rightarrow> int option \<Rightarrow> int option \<Rightarrow> string option \<Rightarrow> uuid option \<Rightarrow>
   quantity_transaction list \<Rightarrow> error + quantity_transaction list" where
  "fn_create_accessory_transaction users accessories accessory_id trans_type ref_id qty prev_qty
       new_qty p_notes user_id tbl =
     (if accessory_id = None \<or> trans_type = None \<or> ref_id = None \<or> user_id = None then
        Inl Required_parameters_null
      else if sql_true (sql_lt new_qty (Some 0)) then
        Inl New_quantity_negative
      else
        and_then (int4_minus new_qty prev_qty) (\<lambda>d.
        and_then (int4_abs d) (\<lambda>a.
        and_then (int4_abs qty) (\<lambda>b.
          if sql_true (sql_ne a b) then Inl Quantity_change_mismatch
          else insert_referenced_quantity_transaction users accessories accessory_id trans_type
                 ref_id qty prev_qty new_qty p_notes user_id tbl))))"

text \<open>
  \<^verbatim>\<open>trg_part_quantity_change\<close> and \<^verbatim>\<open>trg_accessory_quantity_change\<close>, attached
  \<^verbatim>\<open>AFTER UPDATE OF quantity\<close>; \<open>auth_uid\<close> is the value of \<^verbatim>\<open>auth.uid()\<close>.
\<close>

definition trg_part_quantity_change ::
  "uuid list \<Rightarrow> uuid list \<Rightarrow> uuid option \<Rightarrow> item_row \<Rightarrow> item_row \<Rightarrow>
   quantity_transaction list \<Rightarrow> error + quantity_transaction list" where
  "trg_part_quantity_change users parts auth_uid OLD NEW tbl =
     (if sql_true (sql_ne (Some (item_quantity OLD)) (Some (item_quantity NEW))) then
        and_then (int4_minus (Some (item_quantity NEW)) (Some (item_quantity OLD))) (\<lambda>d.
        and_then (int4_abs d) (\<lambda>q.
          fn_create_part_transaction users parts
            (Some (item_id NEW))
            (Some (if item_quantity NEW > item_quantity OLD then T_purchase else T_sale))
            (Some (item_id NEW))
            q
            (Some (item_quantity OLD))
            (Some (item_quantity NEW))
            None
            auth_uid
            tbl))
      else Inr tbl)"

definition trg_accessory_quantity_change ::
  "uuid list \<Rightarrow> uuid list \<Rightarrow> uuid option \<Rightarrow> item_row \<Rightarrow> item_row \<Rightarrow>
   quantity_transaction list \<Rightarrow> error + quantity_transaction list" where
  "trg_accessory_quantity_change users accessories auth_uid OLD NEW tbl =
     (if sql_true (sql_ne (Some (item_quantity OLD)) (Some (item_quantity NEW))) then
        and_then (int4_minus (Some (item_quantity NEW)) (Some (item_quantity OLD))) (\<lambda>d.
        and_then (int4_abs d) (\<lambda>q.
          fn_create_accessory_transaction users accessories
            (Some (item_id NEW))
            (Some (if item_quantity NEW > item_quantity OLD then T_purchase else T_sale))
            (Some (item_id NEW))
            q
            (Some (item_quantity OLD))
            (Some (item_quantity NEW))
            None
            auth_uid
            tbl))
      else Inr tbl)"

subsection \<open>The device-history read path\<close>

text \<open>
  A stored ledger row: the inserted columns and the two default columns. \<^verbatim>\<open>created_at\<close>
  is a timestamp, here a number of microseconds.
\<close>

record stored_device_transaction = device_transaction +
  row_id :: uuid
  created_at :: int

record user_row =
  user_id :: uuid
  full_name :: string

text \<open>
  A row of the answer to
  \<^verbatim>\<open>select('id, created_at, transaction_type, previous_status, new_status, notes,
  user:users!created_by(full_name)')\<close>; the embedded \<^verbatim>\<open>user\<close> is NULL when no row of
  \<^verbatim>\<open>users\<close> that the caller may read has the id in \<^verbatim>\<open>created_by\<close>.
\<close>

record selected_transaction =
  sel_id :: uuid
  sel_created_at :: int
  sel_transaction_type :: transaction_type
  sel_previous_status :: "device_status option"
  sel_new_status :: device_status
  sel_notes :: "string option"
  sel_user :: "string option"

text \<open>The interface \<^verbatim>\<open>DeviceHistory\<close> of the page.\<close>

record device_history =
  hist_id :: uuid
  date :: int
  operation :: string
  user :: "string option"
  details :: "string option"

text \<open>The enum labels as the datastore returns them, and JavaScript's rendering of NULL.\<close>

fun transaction_type_text :: "transaction_type \<Rightarrow> string" where
  "transaction_type_text T_purchase = ''purchase''"
| "transaction_type_text T_sale = ''sale''"
| "transaction_type_text T_return_in = ''return_in''"
| "transaction_type_text T_return_out = ''return_out''"
| "transaction_type_text T_repair = ''repair''"
| "transaction_type_text T_qc = ''qc''"
| "transaction_type_text T_transfer = ''transfer''"

fun device_status_text :: "device_status \<Rightarrow> string" where
  "device_status_text S_in_stock = ''in_stock''"
| "device_status_text S_sold = ''sold''"
| "device_status_text S_returned = ''returned''"
| "device_status_text S_quarantine = ''quarantine''"
| "device_status_text S_repair = ''repair''"
| "device_status_text S_qc_required = ''qc_required''"
| "device_status_text S_qc_failed = ''qc_failed''"

definition template_status :: "device_status option \<Rightarrow> string" where
  "template_status s = (case s of None \<Rightarrow> ''null'' | Some x \<Rightarrow> device_status_text x)"

text \<open>\<^verbatim>\<open>String.prototype.replace\<close> with a string pattern replaces the first occurrence only.\<close>

fun replace_first :: "char \<Rightarrow> char \<Rightarrow> string \<Rightarrow> string" where
  "replace_first a b [] = []"
| "replace_first a b (c # cs) = (if c = a then b # cs else c # replace_first a b cs)"

text \<open>The right arrow U+2192 of the template, as its three UTF-8 bytes.\<close>

definition right_arrow :: string where
  "right_arrow = [CHR 0xE2, CHR 0x86, CHR 0x92]"

text \<open>
  The query of \<^verbatim>\<open>loadDeviceHistory\<close>: \<^verbatim>\<open>.eq('device_id', id)\<close> keeps the rows of the device,
  \<^verbatim>\<open>.order('created_at', { ascending: false })\<close> sorts them newest first, and the select
  list projects each row and embeds the user. \<open>users\<close> is the table \<^verbatim>\<open>users\<close> as the caller
  may read it.
\<close>

definition select_device_history ::
  "user_row list \<Rightarrow> stored_device_transaction list \<Rightarrow> uuid \<Rightarrow> selected_transaction list" where
  "select_device_history users tbl id' =
     map (\<lambda>r. \<lparr>sel_id = row_id r,
                sel_created_at = created_at r,
                sel_transaction_type = transaction_type r,
                sel_previous_status = previous_status r,
                sel_new_status = new_status r,
                sel_notes = notes r,
                sel_user = map_option full_name (find (\<lambda>u. user_id u = created_by r) users)\<rparr>)
         (sort_key (\<lambda>r. - created_at r) (filter (\<lambda>r. device_id r = id') tbl))"

definition device_history_request ::
  "string \<Rightarrow> uuid \<Rightarrow> user_row list \<Rightarrow> stored_device_transaction list \<Rightarrow>
   stored_device_transaction list \<Rightarrow> selected_transaction list" where
  "device_history_request type' id' users cellular_device_transactions
       serial_device_transactions =
     select_device_history users
       (if type' = ''cellular'' then cellular_device_transactions
        else serial_device_transactions) id'"

text \<open>
  \<^verbatim>\<open>loadDeviceHistory\<close> on the response of the request: an error is thrown, caught and
  logged, and absent data is skipped, both leaving the \<^verbatim>\<open>history\<close> state as it was;
  otherwise the state becomes the mapped rows.
\<close>

definition loadDeviceHistory ::
  "string + selected_transaction list option \<Rightarrow> device_history list \<Rightarrow> device_history list" where
  "loadDeviceHistory response history =
     (case response of
        Inl error \<Rightarrow> history
      | Inr None \<Rightarrow> history
      | Inr (Some data) \<Rightarrow>
          map (\<lambda>entry.
                 \<lparr>hist_id = sel_id entry,
                  date = sel_created_at entry,
                  operation =
                    replace_first (CHR ''_'') (CHR '' '')
                      (transaction_type_text (sel_transaction_type entry))
                    @ '' ('' @ template_status (sel_previous_status entry)
                    @ '' '' @ right_arrow @ '' ''
                    @ device_status_text (sel_new_status entry) @ '')'',
                  user = sel_user entry,
                  details = sel_notes entry\<rparr>) data)"

section \<open>Properties of the ledger\<close>

subsection \<open>What each block of the update path appends\<close>

lemma and_then_simps:
  "and_then (Inl e) f = Inl e"
  "and_then (Inr x) f = f x"
  by (simp_all add: and_then_def)

lemma insert_device_transaction_Some:
  "insert_device_transaction (Some d) (Some t) (Some r) prev (Some n) nt (Some u) tbl =
     Inr (tbl @ [\<lparr>device_id = d, transaction_type = t, reference_id = r,
                  previous_status = prev, new_status = n, notes = nt, created_by = u\<rparr>])"
  by (simp add: insert_device_transaction_def)

lemma status_change_block_eq:
  "status_change_block OLD NEW tbl =
     Inr (tbl @ (if status OLD \<noteq> status NEW then
        [\<lparr>device_id = dev_id NEW, transaction_type = status_change_type (status NEW),
          reference_id = dev_id NEW, previous_status = Some (status OLD),
          new_status = status NEW, notes = status_change_note NEW,
          created_by = updated_by NEW\<rparr>] else []))"
  by (simp add: status_change_block_def sql_true_def sql_ne_def insert_device_transaction_Some)

lemma qc_condition:
  "sql_true (sql_or (sql_and (is_null a) (is_not_null b))
                    (sql_and (is_not_null a) (sql_ne b a)))
   \<longleftrightarrow> (a = None \<and> b \<noteq> None) \<or> (\<exists>x y. a = Some x \<and> b = Some y \<and> y \<noteq> x)"
  by (cases a; cases b) (auto simp: sql_true_def sql_or_def sql_and_def is_null_def is_not_null_def sql_ne_def)

lemma qc_change_block_eq:
  "qc_change_block OLD NEW tbl =
     Inr (tbl @ (if qc_status NEW \<noteq> None \<and> qc_status NEW \<noteq> qc_status OLD then
        [\<lparr>device_id = dev_id NEW, transaction_type = T_qc,
          reference_id = dev_id NEW, previous_status = Some (status NEW),
          new_status = status NEW, notes = qc_note NEW,
          created_by = updated_by NEW\<rparr>] else []))"
  unfolding qc_change_block_def qc_condition
  by (cases "qc_status OLD"; cases "qc_status NEW") (auto simp: insert_device_transaction_Some)

lemma repair_change_block_eq:
  "repair_change_block OLD NEW tbl =
     Inr (tbl @ (if repair_completed OLD \<noteq> repair_completed NEW then
        [\<lparr>device_id = dev_id NEW, transaction_type = T_repair,
          reference_id = dev_id NEW, previous_status = Some (status NEW),
          new_status = status NEW,
          notes = Some (if repair_completed NEW then ''Repair completed'' else ''Repair started''),
          created_by = updated_by NEW\<rparr>] else []))"
  by (simp add: repair_change_block_def sql_true_def sql_ne_def insert_device_transaction_Some)

subsection \<open>The rows of the update path\<close>

lemma update_path_rows:
  "and_then (status_change_block OLD NEW tbl) (\<lambda>tbl1.
     and_then (qc_change_block OLD NEW tbl1) (\<lambda>tbl2.
     repair_change_block OLD NEW tbl2)) =
   Inr (tbl
     @ (if status OLD \<noteq> status NEW then
          [\<lparr>device_id = dev_id NEW, transaction_type = status_change_type (status NEW),
            reference_id = dev_id NEW, previous_status = Some (status OLD),
            new_status = status NEW, notes = status_change_note NEW,
            created_by = updated_by NEW\<rparr>] else [])
     @ (if qc_status NEW \<noteq> None \<and> qc_status NEW \<noteq> qc_status OLD then
          [\<lparr>device_id = dev_id NEW, transaction_type = T_qc,
            reference_id = dev_id NEW, previous_status = Some (status NEW),
            new_status = status NEW, notes = qc_note NEW,
            created_by = updated_by NEW\<rparr>] else [])
     @ (if repair_completed OLD \<noteq> repair_completed NEW then
          [\<lparr>device_id = dev_id NEW, transaction_type = T_repair,
            reference_id = dev_id NEW, previous_status = Some (status NEW),
            new_status = status NEW,
            notes = Some (if repair_completed NEW then ''Repair completed''
                          else ''Repair started''),
            created_by = updated_by NEW\<rparr>] else []))"
  by (simp only: status_change_block_eq qc_change_block_eq repair_change_block_eq
        and_then_simps append_assoc)

lemma qc_note_Some:
  "qc_status NEW = Some v \<Longrightarrow>
   qc_note NEW = Some (''QC '' @ v @ '': '' @ (case qc_comments NEW of None \<Rightarrow> '''' | Some c \<Rightarrow> c))"
  by (simp add: qc_note_def sql_concat_def coalesce_def split: option.splits)

subsection \<open>Updates of a device row\<close>

lemma Some_in_map_Some:
  "Some x \<in> set (map Some xs) \<longleftrightarrow> x \<in> set xs"
  "None \<notin> set (map Some xs)"
  by auto

lemma insert_serial_device_transaction_Some:
  "insert_serial_device_transaction users serial_devices (Some d) (Some t) (Some r) prev
       (Some n) nt (Some u) tbl =
     (if d \<in> set serial_devices \<and> u \<in> set users then
        Inr (tbl @ [\<lparr>device_id = d, transaction_type = t, reference_id = r,
                     previous_status = prev, new_status = n, notes = nt, created_by = u\<rparr>])
      else Inl Foreign_key_violation)"
  by (auto simp: insert_serial_device_transaction_def insert_device_transaction_Some
        and_then_simps)

lemma insert_cellular_device_transaction_Some:
  "insert_cellular_device_transaction users (Some d) (Some t) (Some r) prev
       (Some n) nt (Some u) tbl =
     (if u \<in> set users then
        Inr (tbl @ [\<lparr>device_id = d, transaction_type = t, reference_id = r,
                     previous_status = prev, new_status = n, notes = nt, created_by = u\<rparr>])
      else Inl Foreign_key_violation)"
  by (auto simp: insert_cellular_device_transaction_def insert_device_transaction_Some
        and_then_simps)

lemma trg_serial_device_status_change_eq:
  "trg_serial_device_status_change users serial_devices auth_uid OLD NEW tbl =
     (if status OLD = status NEW then Inr tbl
      else (case auth_uid of
              None \<Rightarrow> Inl Required_parameters_null
            | Some u \<Rightarrow>
                if dev_id NEW \<in> set serial_devices \<and> u \<in> set users then
                  Inr (tbl @ [\<lparr>device_id = dev_id NEW,
                               transaction_type = status_change_type (status NEW),
                               reference_id = dev_id NEW,
                               previous_status = Some (status OLD),
                               new_status = status NEW,
                               notes = None,
                               created_by = u\<rparr>])
                else Inl Foreign_key_violation))"
  by (simp add: trg_serial_device_status_change_def fn_create_serial_transaction_def
        insert_serial_device_transaction_Some sql_true_def sql_ne_def split: option.splits)

lemma update_cellular_device_rows:
  "update_cellular_device pods OLD NEW tbl =
   Inr (NEW, tbl
     @ (if status OLD \<noteq> status NEW then
          [\<lparr>device_id = dev_id NEW, transaction_type = status_change_type (status NEW),
            reference_id = dev_id NEW, previous_status = Some (status OLD),
            new_status = status NEW, notes = status_change_note NEW,
            created_by = updated_by NEW\<rparr>] else [])
     @ (if qc_status NEW \<noteq> None \<and> qc_status NEW \<noteq> qc_status OLD then
          [\<lparr>device_id = dev_id NEW, transaction_type = T_qc,
            reference_id = dev_id NEW, previous_status = Some (status NEW),
            new_status = status NEW, notes = qc_note NEW,
            created_by = updated_by NEW\<rparr>] else [])
     @ (if repair_completed OLD \<noteq> repair_completed NEW then
          [\<lparr>device_id = dev_id NEW, transaction_type = T_repair,
            reference_id = dev_id NEW, previous_status = Some (status NEW),
            new_status = status NEW,
            notes = Some (if repair_completed NEW then ''Repair completed''
                          else ''Repair started''),
            created_by = updated_by NEW\<rparr>] else []))"
  by (simp add: update_cellular_device_def update_path_rows and_then_simps)

lemma update_serial_device_rows:
  "dev_id NEW \<in> set serial_devices \<Longrightarrow> u \<in> set users \<Longrightarrow>
   update_serial_device users serial_devices (Some u) pods OLD NEW tbl =
   Inr (NEW, tbl
     @ (if status OLD \<noteq> status NEW then
          [\<lparr>device_id = dev_id NEW, transaction_type = status_change_type (status NEW),
            reference_id = dev_id NEW, previous_status = Some (status OLD),
            new_status = status NEW, notes = None, created_by = u\<rparr>,
           \<lparr>device_id = dev_id NEW, transaction_type = status_change_type (status NEW),
            reference_id = dev_id NEW, previous_status = Some (status OLD),
            new_status = status NEW, notes = status_change_note NEW,
            created_by = updated_by NEW\<rparr>] else [])
     @ (if qc_status NEW \<noteq> None \<and> qc_status NEW \<noteq> qc_status OLD then
          [\<lparr>device_id = dev_id NEW, transaction_type = T_qc,
            reference_id = dev_id NEW, previous_status = Some (status NEW),
            new_status = status NEW, notes = qc_note NEW,
            created_by = updated_by NEW\<rparr>] else [])
     @ (if repair_completed OLD \<noteq> repair_completed NEW then
          [\<lparr>device_id = dev_id NEW, transaction_type = T_repair,
            reference_id = dev_id NEW, previous_status = Some (status NEW),
            new_status = status NEW,
            notes = Some (if repair_completed NEW then ''Repair completed''
                          else ''Repair started''),
            created_by = updated_by NEW\<rparr>] else []))"
  by (simp add: update_serial_device_def trg_serial_device_status_change_eq update_path_rows
        and_then_simps)


lemma status_change_type_table:
  "status_change_type S_sold = T_sale"
  "status_change_type S_returned = T_return_in"
  "status_change_type S_repair = T_repair"
  "status_change_type S_qc_required = T_qc"
  "status_change_type S_in_stock = T_transfer"
  "status_change_type S_quarantine = T_transfer"
  "status_change_type S_qc_failed = T_transfer"
  by (simp_all add: status_change_type_def)

lemma cellular_status_only_update:
  "status OLD \<noteq> status NEW \<Longrightarrow> qc_status NEW = qc_status OLD \<Longrightarrow>
   repair_completed NEW = repair_completed OLD \<Longrightarrow>
   update_cellular_device pods OLD NEW tbl =
     Inr (NEW, tbl @ [\<lparr>device_id = dev_id NEW,
                        transaction_type = status_change_type (status NEW),
                        reference_id = dev_id NEW,
                        previous_status = Some (status OLD),
                        new_status = status NEW,
                        notes = status_change_note NEW,
                        created_by = updated_by NEW\<rparr>])"
  by (simp add: update_cellular_device_rows)

lemma serial_status_only_update:
  "status OLD \<noteq> status NEW \<Longrightarrow> qc_status NEW = qc_status OLD \<Longrightarrow>
   repair_completed NEW = repair_completed OLD \<Longrightarrow>
   dev_id NEW \<in> set serial_devices \<Longrightarrow> u \<in> set users \<Longrightarrow>
   update_serial_device users serial_devices (Some u) pods OLD NEW tbl =
     Inr (NEW, tbl @ [\<lparr>device_id = dev_id NEW,
                        transaction_type = status_change_type (status NEW),
                        reference_id = dev_id NEW,
                        previous_status = Some (status OLD),
                        new_status = status NEW,
                        notes = None,
                        created_by = u\<rparr>,
                      \<lparr>device_id = dev_id NEW,
                        transaction_type = status_change_type (status NEW),
                        reference_id = dev_id NEW,
                        previous_status = Some (status OLD),
                        new_status = status NEW,
                        notes = status_change_note NEW,
                        created_by = updated_by NEW\<rparr>])"
  by (simp add: update_serial_device_rows)

subsection \<open>Status-only updates\<close>

text \<open>
  Claim C1 says that an update of a cellular or serial device row that changes the status
  and nothing else appends exactly one ledger row, whose previous status is the old
  row's, whose new status is the new row's and whose kind is the lookup on the new
  status. A row of \<^verbatim>\<open>cellular_devices\<close> behaves so. On \<^verbatim>\<open>serial_devices\<close> both triggers of
  the table fire: the update of device 1 from in_stock to sold by user 9 appends two
  rows with previous status in_stock, new status sold and kind sale, the first written
  by \<^verbatim>\<open>trg_serial_device_status_change\<close> and the second by
  \<^verbatim>\<open>trg_serial_device_transaction\<close>. The same update of a cellular row appends one.
\<close>

theorem serial_status_update_appends_two_rows:
  "update_serial_device [9] [1] (Some 9) []
     \<lparr>dev_id = 1, status = S_in_stock, qc_status = None, qc_comments = None,
      repair_completed = False, dev_created_by = 9, updated_by = 9\<rparr>
     \<lparr>dev_id = 1, status = S_sold, qc_status = None, qc_comments = None,
      repair_completed = False, dev_created_by = 9, updated_by = 9\<rparr> [] =
   Inr (\<lparr>dev_id = 1, status = S_sold, qc_status = None, qc_comments = None,
         repair_completed = False, dev_created_by = 9, updated_by = 9\<rparr>,
        [\<lparr>device_id = 1, transaction_type = T_sale, reference_id = 1,
          previous_status = Some S_in_stock, new_status = S_sold, notes = None,
          created_by = 9\<rparr>,
         \<lparr>device_id = 1, transaction_type = T_sale, reference_id = 1,
          previous_status = Some S_in_stock, new_status = S_sold, notes = None,
          created_by = 9\<rparr>]) \<and>
   update_cellular_device []
     \<lparr>dev_id = 1, status = S_in_stock, qc_status = None, qc_comments = None,
      repair_completed = False, dev_created_by = 9, updated_by = 9\<rparr>
     \<lparr>dev_id = 1, status = S_sold, qc_status = None, qc_comments = None,
      repair_completed = False, dev_created_by = 9, updated_by = 9\<rparr> [] =
   Inr (\<lparr>dev_id = 1, status = S_sold, qc_status = None, qc_comments = None,
         repair_completed = False, dev_created_by = 9, updated_by = 9\<rparr>,
        [\<lparr>device_id = 1, transaction_type = T_sale, reference_id = 1,
          previous_status = Some S_in_stock, new_status = S_sold, notes = None,
          created_by = 9\<rparr>])"
  by (simp add: update_serial_device_rows update_cellular_device_rows
        status_change_type_def status_change_note_def)

subsection \<open>Device creation\<close>

text \<open>
  Claim C2. Inserting a device row appends exactly one ledger row: its previous status is
  NULL, its new status is the device's initial status, and its kind is purchase when a
  row of \<^verbatim>\<open>purchase_order_devices\<close> already references the device at that moment, and
  transfer otherwise. For a device no earlier ledger row refers to, that row is the only
  ledger row of the device right after creation.
\<close>

theorem device_creation_appends_one_row:
  "trg_cellular_device_transaction pods (TG_INSERT NEW) tbl =
     Inr (tbl @ [\<lparr>device_id = dev_id NEW,
                  transaction_type =
                    (if Some (dev_id NEW) \<in> set (map cellular_device_id pods)
                     then T_purchase else T_transfer),
                  reference_id = dev_id NEW,
                  previous_status = None,
                  new_status = status NEW,
                  notes = Some ''Device created'',
                  created_by = dev_created_by NEW\<rparr>]) \<and>
   trg_serial_device_transaction pods (TG_INSERT NEW) tbl =
     Inr (tbl @ [\<lparr>device_id = dev_id NEW,
                  transaction_type =
                    (if Some (dev_id NEW) \<in> set (map serial_device_id pods)
                     then T_purchase else T_transfer),
                  reference_id = dev_id NEW,
                  previous_status = None,
                  new_status = status NEW,
                  notes = Some ''Device created'',
                  created_by = dev_created_by NEW\<rparr>]) \<and>
   (dev_id NEW \<notin> device_id ` set tbl \<longrightarrow>
      (\<forall>tbl'. trg_cellular_device_transaction pods (TG_INSERT NEW) tbl = Inr tbl' \<or>
              trg_serial_device_transaction pods (TG_INSERT NEW) tbl = Inr tbl' \<longrightarrow>
         length (filter (\<lambda>r. device_id r = dev_id NEW) tbl') = 1))"
proof -
  have "filter (\<lambda>r. device_id r = dev_id NEW) tbl = []"
    if "dev_id NEW \<notin> device_id ` set tbl"
    using that by (force simp: filter_empty_conv)
  then show ?thesis
    by (auto simp: insert_device_transaction_Some)
qed

theorem device_creation_appends_one_row_witness:
  "(1::nat) \<notin> device_id ` set ([] :: device_transaction list) \<and>
   trg_cellular_device_transaction
     [\<lparr>purchase_order_id = 40, cellular_device_id = Some 1, serial_device_id = None\<rparr>]
     (TG_INSERT \<lparr>dev_id = 1, status = S_in_stock, qc_status = None, qc_comments = None,
                 repair_completed = False, dev_created_by = 7, updated_by = 7\<rparr>) [] =
     Inr [\<lparr>device_id = 1, transaction_type = T_purchase, reference_id = 1,
           previous_status = None, new_status = S_in_stock,
           notes = Some ''Device created'', created_by = 7\<rparr>] \<and>
   trg_serial_device_transaction
     [\<lparr>purchase_order_id = 40, cellular_device_id = Some 1, serial_device_id = None\<rparr>]
     (TG_INSERT \<lparr>dev_id = 1, status = S_in_stock, qc_status = None, qc_comments = None,
                 repair_completed = False, dev_created_by = 7, updated_by = 7\<rparr>) [] =
     Inr [\<lparr>device_id = 1, transaction_type = T_transfer, reference_id = 1,
           previous_status = None, new_status = S_in_stock,
           notes = Some ''Device created'', created_by = 7\<rparr>] \<and>
   length (filter (\<lambda>r. device_id r = 1)
     [\<lparr>device_id = 1, transaction_type = T_purchase, reference_id = 1,
       previous_status = None, new_status = S_in_stock,
       notes = Some ''Device created'', created_by = 7\<rparr>]) = 1"
  using device_creation_appends_one_row
    [where NEW = "\<lparr>dev_id = 1, status = S_in_stock, qc_status = None, qc_comments = None,
                   repair_completed = False, dev_created_by = 7, updated_by = 7\<rparr>"
       and tbl = "[]"
       and pods = "[\<lparr>purchase_order_id = 40, cellular_device_id = Some 1,
                      serial_device_id = None\<rparr>]"]
  by simp

subsection \<open>Three changes in one update\<close>

text \<open>
  Claim C3 says that an update that changes the status, the quality-control outcome and
  the repair-completed flag at once appends exactly three ledger rows, one per check.
  A row of \<^verbatim>\<open>cellular_devices\<close> behaves so. On \<^verbatim>\<open>serial_devices\<close> the trigger
  \<^verbatim>\<open>trg_after_serial_device_update\<close> adds a row of its own for the status change: the
  update of device 1 by user 9 from in_stock to repair, with the outcome set to fail and
  the flag set, appends four rows. The same update of a cellular row appends three.
\<close>

theorem serial_triple_update_appends_four_rows:
  "update_serial_device [9] [1] (Some 9) []
     \<lparr>dev_id = 1, status = S_in_stock, qc_status = None, qc_comments = None,
      repair_completed = False, dev_created_by = 9, updated_by = 9\<rparr>
     \<lparr>dev_id = 1, status = S_repair, qc_status = Some ''fail'',
      qc_comments = Some ''cracked screen'', repair_completed = True,
      dev_created_by = 9, updated_by = 9\<rparr> [] =
   Inr (\<lparr>dev_id = 1, status = S_repair, qc_status = Some ''fail'',
         qc_comments = Some ''cracked screen'', repair_completed = True,
         dev_created_by = 9, updated_by = 9\<rparr>,
        [\<lparr>device_id = 1, transaction_type = T_repair, reference_id = 1,
          previous_status = Some S_in_stock, new_status = S_repair, notes = None,
          created_by = 9\<rparr>,
         \<lparr>device_id = 1, transaction_type = T_repair, reference_id = 1,
          previous_status = Some S_in_stock, new_status = S_repair,
          notes = Some ''Repair completed'', created_by = 9\<rparr>,
         \<lparr>device_id = 1, transaction_type = T_qc, reference_id = 1,
          previous_status = Some S_repair, new_status = S_repair,
          notes = Some ''QC fail: cracked screen'', created_by = 9\<rparr>,
         \<lparr>device_id = 1, transaction_type = T_repair, reference_id = 1,
          previous_status = Some S_repair, new_status = S_repair,
          notes = Some ''Repair completed'', created_by = 9\<rparr>]) \<and>
   update_cellular_device []
     \<lparr>dev_id = 1, status = S_in_stock, qc_status = None, qc_comments = None,
      repair_completed = False, dev_created_by = 9, updated_by = 9\<rparr>
     \<lparr>dev_id = 1, status = S_repair, qc_status = Some ''fail'',
      qc_comments = Some ''cracked screen'', repair_completed = True,
      dev_created_by = 9, updated_by = 9\<rparr> [] =
   Inr (\<lparr>dev_id = 1, status = S_repair, qc_status = Some ''fail'',
         qc_comments = Some ''cracked screen'', repair_completed = True,
         dev_created_by = 9, updated_by = 9\<rparr>,
        [\<lparr>device_id = 1, transaction_type = T_repair, reference_id = 1,
          previous_status = Some S_in_stock, new_status = S_repair,
          notes = Some ''Repair completed'', created_by = 9\<rparr>,
         \<lparr>device_id = 1, transaction_type = T_qc, reference_id = 1,
          previous_status = Some S_repair, new_status = S_repair,
          notes = Some ''QC fail: cracked screen'', created_by = 9\<rparr>,
         \<lparr>device_id = 1, transaction_type = T_repair, reference_id = 1,
          previous_status = Some S_repair, new_status = S_repair,
          notes = Some ''Repair completed'', created_by = 9\<rparr>])"
  by (simp add: update_serial_device_rows update_cellular_device_rows
        status_change_type_def status_change_note_def qc_note_Some)

subsection \<open>The QC-outcome row\<close>



subsection \<open>Sequences of device operations\<close>







subsection \<open>Rejected status transitions\<close>


subsection \<open>Ledger-creation functions for quantities\<close>

lemma valid_quantities_eq:
  "valid_quantities q p n =
     (if int4 (n - p) \<and> int4 \<bar>n - p\<bar> \<and> int4 \<bar>q\<bar>
      then Inr (0 \<le> p \<and> 0 \<le> n \<and> \<bar>n - p\<bar> = \<bar>q\<bar>)
      else Inl Integer_out_of_range)"
  by (simp add: valid_quantities_def int4_minus_def int4_abs_def and_then_def)

lemma insert_quantity_transaction_Some:
  "insert_quantity_transaction (Some i) (Some t) (Some r) (Some q) (Some p) (Some n) nt
       (Some u) tbl =
     (if \<not> (int4 (n - p) \<and> int4 \<bar>n - p\<bar> \<and> int4 \<bar>q\<bar>) then Inl Integer_out_of_range
      else if 0 \<le> p \<and> 0 \<le> n \<and> \<bar>n - p\<bar> = \<bar>q\<bar> then
        Inr (tbl @ [\<lparr>item_ref = i, qt_transaction_type = t, qt_reference_id = r,
                     quantity = q, previous_quantity = p, new_quantity = n,
                     qt_notes = nt, qt_created_by = u\<rparr>])
      else Inl Check_violation)"
  by (simp add: insert_quantity_transaction_def valid_quantities_eq and_then_def)

lemma insert_quantity_transaction_null:
  "qty = None \<or> prev = None \<or> new = None \<Longrightarrow>
   insert_quantity_transaction item ty ref qty prev new nt usr tbl = Inl Not_null_violation"
  by (auto simp: insert_quantity_transaction_def split: option.splits)

lemma insert_referenced_quantity_transaction_Some:
  "insert_referenced_quantity_transaction users items (Some i) (Some t) (Some r) (Some q)
       (Some p) (Some n) nt (Some u) tbl =
     (if \<not> (int4 (n - p) \<and> int4 \<bar>n - p\<bar> \<and> int4 \<bar>q\<bar>) then Inl Integer_out_of_range
      else if \<not> (0 \<le> p \<and> 0 \<le> n \<and> \<bar>n - p\<bar> = \<bar>q\<bar>) then Inl Check_violation
      else if i \<in> set items \<and> u \<in> set users then
        Inr (tbl @ [\<lparr>item_ref = i, qt_transaction_type = t, qt_reference_id = r,
                     quantity = q, previous_quantity = p, new_quantity = n,
                     qt_notes = nt, qt_created_by = u\<rparr>])
      else Inl Foreign_key_violation)"
  by (auto simp: insert_referenced_quantity_transaction_def insert_quantity_transaction_Some
        and_then_simps)

lemma insert_referenced_quantity_transaction_null:
  "qty = None \<or> prev = None \<or> new = None \<Longrightarrow>
   insert_referenced_quantity_transaction users items item ty ref qty prev new nt usr tbl =
     Inl Not_null_violation"
  by (simp add: insert_referenced_quantity_transaction_def insert_quantity_transaction_null
        and_then_simps)

lemma fn_create_part_transaction_Some:
  "fn_create_part_transaction users parts (Some i) (Some t) (Some r) (Some q) (Some p) (Some n)
       nt (Some u) tbl =
     (if n < 0 then Inl New_quantity_negative
      else if \<not> (int4 (n - p) \<and> int4 \<bar>n - p\<bar> \<and> int4 \<bar>q\<bar>) then Inl Integer_out_of_range
      else if \<bar>n - p\<bar> \<noteq> \<bar>q\<bar> then Inl Quantity_change_mismatch
      else if p < 0 then Inl Check_violation
      else if i \<in> set parts \<and> u \<in> set users then
        Inr (tbl @ [\<lparr>item_ref = i, qt_transaction_type = t, qt_reference_id = r,
                     quantity = q, previous_quantity = p, new_quantity = n,
                     qt_notes = nt, qt_created_by = u\<rparr>])
      else Inl Foreign_key_violation)"
  by (simp add: fn_create_part_transaction_def insert_referenced_quantity_transaction_Some
        int4_minus_def int4_abs_def and_then_def sql_true_def sql_lt_def sql_ne_def)

lemma fn_create_part_transaction_null_quantity:
  "qty = None \<or> prev = None \<or> new = None \<Longrightarrow>
   fn_create_part_transaction users parts item ty ref qty prev new nt usr tbl \<noteq> Inr tbl'"
  by (auto simp: fn_create_part_transaction_def insert_referenced_quantity_transaction_null
        int4_minus_def int4_abs_def and_then_def sql_true_def sql_lt_def sql_ne_def
        split: option.splits)

lemma insert_referenced_quantity_transaction_not_required:
  "insert_referenced_quantity_transaction users items item ty ref qty prev new nt usr tbl \<noteq>
     Inl Required_parameters_null"
  by (auto simp: insert_referenced_quantity_transaction_def insert_quantity_transaction_def
        valid_quantities_eq and_then_def split: option.splits sum.splits)

lemma fn_create_part_transaction_required:
  "fn_create_part_transaction users parts item ty ref qty prev new nt usr tbl =
     Inl Required_parameters_null
   \<longleftrightarrow> item = None \<or> ty = None \<or> ref = None \<or> usr = None"
  by (auto simp: fn_create_part_transaction_def
        insert_referenced_quantity_transaction_not_required
        int4_minus_def int4_abs_def and_then_def sql_true_def sql_lt_def sql_ne_def
        split: option.splits)

lemma fn_create_accessory_transaction_eq:
  "fn_create_accessory_transaction = fn_create_part_transaction"
  by (intro ext) (simp add: fn_create_accessory_transaction_def fn_create_part_transaction_def)

lemma fn_create_part_transaction_Inr:
  assumes "fn_create_part_transaction users parts item ty ref qty prev new nt usr tbl = Inr tbl'"
  shows "\<exists>i t r q p n u.
        item = Some i \<and> ty = Some t \<and> ref = Some r \<and> qty = Some q \<and> prev = Some p \<and>
        new = Some n \<and> usr = Some u \<and> 0 \<le> p \<and> 0 \<le> n \<and> \<bar>n - p\<bar> = \<bar>q\<bar> \<and>
        tbl' = tbl @ [\<lparr>item_ref = i, qt_transaction_type = t, qt_reference_id = r,
                       quantity = q, previous_quantity = p, new_quantity = n,
                       qt_notes = nt, qt_created_by = u\<rparr>]"
proof -
  have "\<not> (item = None \<or> ty = None \<or> ref = None \<or> usr = None)"
    using assms
      fn_create_part_transaction_required [of users parts item ty ref qty prev new nt usr tbl]
    by simp
  moreover have "\<not> (qty = None \<or> prev = None \<or> new = None)"
    using assms
      fn_create_part_transaction_null_quantity
        [of qty prev new users parts item ty ref nt usr tbl tbl']
    by argo
  ultimately obtain i t r q p n u where s:
    "item = Some i" "ty = Some t" "ref = Some r" "qty = Some q" "prev = Some p"
    "new = Some n" "usr = Some u"
    by auto
  have r: "fn_create_part_transaction users parts (Some i) (Some t) (Some r) (Some q) (Some p)
       (Some n) nt (Some u) tbl = Inr tbl'"
    using assms by (simp only: s)
  have "0 \<le> p \<and> 0 \<le> n \<and> \<bar>n - p\<bar> = \<bar>q\<bar> \<and>
        tbl' = tbl @ [\<lparr>item_ref = i, qt_transaction_type = t, qt_reference_id = r,
                       quantity = q, previous_quantity = p, new_quantity = n,
                       qt_notes = nt, qt_created_by = u\<rparr>]"
    using r by (simp add: fn_create_part_transaction_Some split: if_splits)
  with s show ?thesis
    by simp
qed

lemma fn_create_part_transaction_no_user:
  "fn_create_part_transaction users items i t r q p n nt None tbl =
     Inl Required_parameters_null"
  by (simp add: fn_create_part_transaction_def)

subsection \<open>Validation of quantity writes\<close>

text \<open>
  Claim C4, as stated, asks that the absolute difference between new and previous
  quantity equal the recorded quantity. The functions compare it with the absolute value
  of the recorded quantity, so a write that records a negative quantity is accepted:
  recording \<open>- 5\<close> for a move from 10 to 5 succeeds, and the absolute difference 5 is not
  the recorded \<open>- 5\<close>.
\<close>

theorem signed_quantity_accepted:
  "fn_create_part_transaction [9] [1] (Some 1) (Some T_sale) (Some 1) (Some (- 5)) (Some 10)
      (Some 5) None (Some 9) [] =
     Inr [\<lparr>item_ref = 1, qt_transaction_type = T_sale, qt_reference_id = 1,
           quantity = - 5, previous_quantity = 10, new_quantity = 5,
           qt_notes = None, qt_created_by = 9\<rparr>] \<and>
   \<bar>(5::int) - 10\<bar> \<noteq> - 5"
  by (simp add: fn_create_part_transaction_Some int4_def)

text \<open>
  Claim C4, amended. Every part or accessory ledger write that succeeds appends exactly
  one row, in which the absolute difference between new and previous quantity equals
  the absolute value of the recorded quantity and the new quantity is not negative. A
  write whose new quantity is negative, or whose absolute difference is not the
  absolute value of the recorded quantity, fails, and a failed write leaves no row.
\<close>

theorem quantity_write_validated:
  "(fn_create_part_transaction users parts item ty ref qty prev new nt usr tbl = Inr tbl' \<or>
    fn_create_accessory_transaction users accessories item ty ref qty prev new nt usr tbl =
      Inr tbl' \<longrightarrow>
      (\<exists>row. tbl' = tbl @ [row] \<and>
             Some (quantity row) = qty \<and> Some (previous_quantity row) = prev \<and>
             Some (new_quantity row) = new \<and>
             \<bar>new_quantity row - previous_quantity row\<bar> = \<bar>quantity row\<bar> \<and>
             0 \<le> new_quantity row)) \<and>
   (qty = Some q \<and> prev = Some p \<and> new = Some n \<and> (n < 0 \<or> \<bar>n - p\<bar> \<noteq> \<bar>q\<bar>) \<longrightarrow>
      (\<exists>e. fn_create_part_transaction users parts item ty ref qty prev new nt usr tbl =
            Inl e) \<and>
      (\<exists>e. fn_create_accessory_transaction users accessories item ty ref qty prev new nt usr
            tbl = Inl e))"
proof (intro conjI impI)
  assume "fn_create_part_transaction users parts item ty ref qty prev new nt usr tbl = Inr tbl' \<or>
    fn_create_accessory_transaction users accessories item ty ref qty prev new nt usr tbl =
      Inr tbl'"
  then obtain items where
    "fn_create_part_transaction users items item ty ref qty prev new nt usr tbl = Inr tbl'"
    by (auto simp: fn_create_accessory_transaction_eq)
  from fn_create_part_transaction_Inr [OF this]
  show "\<exists>row. tbl' = tbl @ [row] \<and>
             Some (quantity row) = qty \<and> Some (previous_quantity row) = prev \<and>
             Some (new_quantity row) = new \<and>
             \<bar>new_quantity row - previous_quantity row\<bar> = \<bar>quantity row\<bar> \<and>
             0 \<le> new_quantity row"
    by auto
next
  assume v: "qty = Some q \<and> prev = Some p \<and> new = Some n \<and> (n < 0 \<or> \<bar>n - p\<bar> \<noteq> \<bar>q\<bar>)"
  have fails: "\<exists>e. fn_create_part_transaction users items item ty ref qty prev new nt usr tbl =
      Inl e" for items
  proof (cases "fn_create_part_transaction users items item ty ref qty prev new nt usr tbl")
    case (Inl e)
    then show ?thesis by simp
  next
    case (Inr t)
    from fn_create_part_transaction_Inr [OF this] v show ?thesis
      by auto
  qed
  show "\<exists>e. fn_create_part_transaction users parts item ty ref qty prev new nt usr tbl = Inl e"
    by (rule fails)
  show "\<exists>e. fn_create_accessory_transaction users accessories item ty ref qty prev new nt usr
            tbl = Inl e"
    using fails [of accessories] by (simp add: fn_create_accessory_transaction_eq)
qed

theorem quantity_write_validated_witness:
  "fn_create_part_transaction [9] [1] (Some 1) (Some T_sale) (Some 1) (Some 5) (Some 10)
      (Some 5) None (Some 9) [] =
     Inr [\<lparr>item_ref = 1, qt_transaction_type = T_sale, qt_reference_id = 1,
           quantity = 5, previous_quantity = 10, new_quantity = 5,
           qt_notes = None, qt_created_by = 9\<rparr>] \<and>
   \<bar>(5::int) - 10\<bar> = \<bar>5\<bar> \<and> (0::int) \<le> 5 \<and>
   \<bar>(5::int) - 10\<bar> \<noteq> \<bar>3\<bar> \<and>
   (\<exists>e. fn_create_part_transaction [9] [1] (Some 1) (Some T_sale) (Some 1) (Some 3) (Some 10)
      (Some 5) None (Some 9) [] = Inl e)"
  using quantity_write_validated
    [where users = "[9]" and parts = "[1]" and item = "Some 1" and ty = "Some T_sale"
       and ref = "Some 1" and qty = "Some 3"
       and prev = "Some 10" and new = "Some 5" and nt = None and usr = "Some 9"
       and tbl = "[]" and q = 3 and p = 10 and n = 5]
  by (simp add: fn_create_part_transaction_Some int4_def)

subsection \<open>Required parameters\<close>

text \<open>
  Claim C5, as stated, says that a ledger-creation function fails if and only if one of
  device id, transaction kind, reference id and acting user id is NULL. The functions
  also fail when all four have a value: the device function when the new status is NULL
  (the column is \<^verbatim>\<open>NOT NULL\<close>) or when the user id is no row of \<^verbatim>\<open>users\<close>, the part
  function when the new quantity is negative.
\<close>

theorem failure_without_null_required_field:
  "fn_create_cellular_transaction [9] (Some 1) (Some T_sale) (Some 1) (Some S_in_stock) None
      None (Some 9) [] = Inl Not_null_violation \<and>
   fn_create_cellular_transaction [9] (Some 1) (Some T_sale) (Some 1) (Some S_in_stock)
      (Some S_sold) None (Some 5) [] = Inl Foreign_key_violation \<and>
   fn_create_part_transaction [9] [1] (Some 1) (Some T_sale) (Some 1) (Some 1) (Some 0)
      (Some (- 1)) None (Some 9) [] = Inl New_quantity_negative"
  by (simp add: fn_create_cellular_transaction_def insert_cellular_device_transaction_def
        insert_device_transaction_def and_then_simps fn_create_part_transaction_Some)

lemma insert_device_transaction_not_required:
  "insert_device_transaction dev ty ref prev new nt usr tbl \<noteq> Inl Required_parameters_null"
  by (simp add: insert_device_transaction_def split: option.splits)

lemma insert_referenced_device_transaction_not_required:
  "insert_cellular_device_transaction users dev ty ref prev new nt usr tbl \<noteq>
     Inl Required_parameters_null"
  "insert_serial_device_transaction users serial_devices dev ty ref prev new nt usr tbl \<noteq>
     Inl Required_parameters_null"
  using insert_device_transaction_not_required [of dev ty ref prev new nt usr tbl]
  by (auto simp: insert_cellular_device_transaction_def insert_serial_device_transaction_def
        and_then_def split: sum.splits)

text \<open>
  Claim C5, amended. Each of the four ledger-creation functions raises its
  required-parameters exception if and only if the device (part, accessory) id, the
  transaction kind, the reference id or the acting user id is NULL, and then no ledger
  row is written. With the four fields not NULL a function can still fail for another
  reason.
\<close>

theorem required_fields_checked:
  "(fn_create_cellular_transaction users dev ty ref prev new nt usr tbl =
      Inl Required_parameters_null
      \<longleftrightarrow> dev = None \<or> ty = None \<or> ref = None \<or> usr = None) \<and>
   (fn_create_serial_transaction users serial_devices dev ty ref prev new nt usr tbl =
      Inl Required_parameters_null
      \<longleftrightarrow> dev = None \<or> ty = None \<or> ref = None \<or> usr = None) \<and>
   (fn_create_part_transaction users parts dev ty ref qty pq nq nt usr qtbl =
      Inl Required_parameters_null
      \<longleftrightarrow> dev = None \<or> ty = None \<or> ref = None \<or> usr = None) \<and>
   (fn_create_accessory_transaction users accessories dev ty ref qty pq nq nt usr qtbl =
      Inl Required_parameters_null
      \<longleftrightarrow> dev = None \<or> ty = None \<or> ref = None \<or> usr = None)"
  by (auto simp: fn_create_cellular_transaction_def fn_create_serial_transaction_def
        insert_referenced_device_transaction_not_required
        fn_create_part_transaction_required fn_create_accessory_transaction_eq)

theorem required_fields_checked_witness:
  "fn_create_cellular_transaction [9] (Some 1) (Some T_sale) (Some 1) (Some S_in_stock)
      (Some S_sold) None None [] = Inl Required_parameters_null \<and>
   fn_create_serial_transaction [9] [1] (Some 1) (Some T_sale) (Some 1) (Some S_in_stock)
      (Some S_sold) None (Some 9) [] \<noteq> Inl Required_parameters_null \<and>
   fn_create_part_transaction [9] [1] None (Some T_sale) (Some 1) (Some 5) (Some 10) (Some 5)
      None (Some 9) [] = Inl Required_parameters_null"
  using required_fields_checked
    [where users = "[9]" and dev = "Some 1" and ty = "Some T_sale" and ref = "Some 1"
       and prev = "Some S_in_stock" and new = "Some S_sold" and nt = None and usr = None
       and tbl = "[]"]
    required_fields_checked
    [where users = "[9]" and serial_devices = "[1]" and dev = "Some 1" and ty = "Some T_sale"
       and ref = "Some 1" and prev = "Some S_in_stock" and new = "Some S_sold" and nt = None
       and usr = "Some 9" and tbl = "[]"]
    required_fields_checked
    [where users = "[9]" and parts = "[1]" and dev = None and ty = "Some T_sale"
       and ref = "Some 1" and qty = "Some 5" and pq = "Some 10" and nq = "Some 5"
       and nt = None and usr = "Some 9" and qtbl = "[]"]
  by simp

subsection \<open>Quantity triggers\<close>

text \<open>
  Claim C10, as stated, says that every update of a part or accessory row that changes
  its quantity appends exactly one ledger row. The triggers pass \<^verbatim>\<open>auth.uid()\<close> as the
  acting user: a change from 10 to 4 is rejected with the required-parameters exception
  when \<^verbatim>\<open>auth.uid()\<close> is NULL, and with a foreign-key violation when it is the id of no
  row of \<^verbatim>\<open>users\<close>, and then no row is appended.
\<close>

theorem quantity_change_without_user_rejected:
  "item_quantity \<lparr>item_id = 3, item_quantity = 10\<rparr> \<noteq>
     item_quantity \<lparr>item_id = 3, item_quantity = 4\<rparr> \<and>
   trg_part_quantity_change [9] [3] None \<lparr>item_id = 3, item_quantity = 10\<rparr>
       \<lparr>item_id = 3, item_quantity = 4\<rparr> [] = Inl Required_parameters_null \<and>
   trg_accessory_quantity_change [9] [3] None \<lparr>item_id = 3, item_quantity = 10\<rparr>
       \<lparr>item_id = 3, item_quantity = 4\<rparr> [] = Inl Required_parameters_null \<and>
   trg_part_quantity_change [9] [3] (Some 5) \<lparr>item_id = 3, item_quantity = 10\<rparr>
       \<lparr>item_id = 3, item_quantity = 4\<rparr> [] = Inl Foreign_key_violation"
  by (simp add: trg_part_quantity_change_def trg_accessory_quantity_change_def
        fn_create_accessory_transaction_eq fn_create_part_transaction_Some
        fn_create_part_transaction_no_user
        int4_minus_def int4_abs_def and_then_simps sql_true_def sql_ne_def int4_def)

text \<open>
  Claim C10, amended. For an update of a part or accessory row (old and new quantity
  being \<^verbatim>\<open>INTEGER\<close> values that are not negative, as the table requires): when the
  quantity changes and \<^verbatim>\<open>auth.uid()\<close> is the id of a row of \<^verbatim>\<open>users\<close>, the trigger appends
  exactly one ledger row, of kind purchase when the new quantity is greater than the
  old one and sale otherwise, whose recorded quantity is the absolute difference; when
  the quantity changes and \<^verbatim>\<open>auth.uid()\<close> is NULL or the id of no row of \<^verbatim>\<open>users\<close>, the
  trigger raises and appends nothing; when the quantity is unchanged, the trigger
  appends nothing.
\<close>

theorem quantity_change_appends_one_row:
  "0 \<le> item_quantity OLD \<Longrightarrow> 0 \<le> item_quantity NEW \<Longrightarrow>
   int4 (item_quantity OLD) \<Longrightarrow> int4 (item_quantity NEW) \<Longrightarrow>
   item_id NEW \<in> set items \<Longrightarrow>
     (item_quantity OLD \<noteq> item_quantity NEW \<and> u \<in> set users \<longrightarrow>
        trg_part_quantity_change users items (Some u) OLD NEW tbl =
          Inr (tbl @ [\<lparr>item_ref = item_id NEW,
                       qt_transaction_type =
                         (if item_quantity NEW > item_quantity OLD then T_purchase else T_sale),
                       qt_reference_id = item_id NEW,
                       quantity = \<bar>item_quantity NEW - item_quantity OLD\<bar>,
                       previous_quantity = item_quantity OLD,
                       new_quantity = item_quantity NEW,
                       qt_notes = None,
                       qt_created_by = u\<rparr>]) \<and>
        trg_accessory_quantity_change users items (Some u) OLD NEW tbl =
          Inr (tbl @ [\<lparr>item_ref = item_id NEW,
                       qt_transaction_type =
                         (if item_quantity NEW > item_quantity OLD then T_purchase else T_sale),
                       qt_reference_id = item_id NEW,
                       quantity = \<bar>item_quantity NEW - item_quantity OLD\<bar>,
                       previous_quantity = item_quantity OLD,
                       new_quantity = item_quantity NEW,
                       qt_notes = None,
                       qt_created_by = u\<rparr>])) \<and>
     (item_quantity OLD \<noteq> item_quantity NEW \<longrightarrow>
        trg_part_quantity_change users items None OLD NEW tbl = Inl Required_parameters_null \<and>
        trg_accessory_quantity_change users items None OLD NEW tbl =
          Inl Required_parameters_null) \<and>
     (item_quantity OLD \<noteq> item_quantity NEW \<and> u \<notin> set users \<longrightarrow>
        trg_part_quantity_change users items (Some u) OLD NEW tbl = Inl Foreign_key_violation \<and>
        trg_accessory_quantity_change users items (Some u) OLD NEW tbl =
          Inl Foreign_key_violation) \<and>
     (item_quantity OLD = item_quantity NEW \<longrightarrow>
        trg_part_quantity_change users items auth_uid OLD NEW tbl = Inr tbl \<and>
        trg_accessory_quantity_change users items auth_uid OLD NEW tbl = Inr tbl)"
proof -
  assume nn: "0 \<le> item_quantity OLD" "0 \<le> item_quantity NEW"
    and rg: "int4 (item_quantity OLD)" "int4 (item_quantity NEW)"
    and ex: "item_id NEW \<in> set items"
  have d: "int4 (item_quantity NEW - item_quantity OLD)"
          "int4 \<bar>item_quantity NEW - item_quantity OLD\<bar>"
    using nn rg by (auto simp: int4_def)
  show ?thesis
    using nn d ex
    by (simp add: trg_part_quantity_change_def trg_accessory_quantity_change_def
          fn_create_accessory_transaction_eq fn_create_part_transaction_Some
          fn_create_part_transaction_no_user
          int4_minus_def int4_abs_def and_then_simps sql_true_def sql_ne_def)
qed

theorem quantity_change_appends_one_row_witness:
  "(0::int) \<le> 10 \<and> (0::int) \<le> 4 \<and> int4 10 \<and> int4 4 \<and> (3::nat) \<in> set [3] \<and>
   trg_part_quantity_change [9] [3] (Some 9) \<lparr>item_id = 3, item_quantity = 10\<rparr>
       \<lparr>item_id = 3, item_quantity = 4\<rparr> [] =
     Inr [\<lparr>item_ref = 3, qt_transaction_type = T_sale, qt_reference_id = 3,
           quantity = 6, previous_quantity = 10, new_quantity = 4,
           qt_notes = None, qt_created_by = 9\<rparr>] \<and>
   trg_accessory_quantity_change [9] [3] (Some 9) \<lparr>item_id = 3, item_quantity = 4\<rparr>
       \<lparr>item_id = 3, item_quantity = 10\<rparr> [] =
     Inr [\<lparr>item_ref = 3, qt_transaction_type = T_purchase, qt_reference_id = 3,
           quantity = 6, previous_quantity = 4, new_quantity = 10,
           qt_notes = None, qt_created_by = 9\<rparr>] \<and>
   trg_part_quantity_change [9] [3] None \<lparr>item_id = 3, item_quantity = 4\<rparr>
       \<lparr>item_id = 3, item_quantity = 4\<rparr> [] = Inr []"
  using quantity_change_appends_one_row
    [where OLD = "\<lparr>item_id = 3, item_quantity = 10\<rparr>"
       and NEW = "\<lparr>item_id = 3, item_quantity = 4\<rparr>" and u = 9 and tbl = "[]"
       and users = "[9]" and items = "[3]"]
    quantity_change_appends_one_row
    [where OLD = "\<lparr>item_id = 3, item_quantity = 4\<rparr>"
       and NEW = "\<lparr>item_id = 3, item_quantity = 10\<rparr>" and u = 9 and tbl = "[]"
       and users = "[9]" and items = "[3]"]
    quantity_change_appends_one_row
    [where OLD = "\<lparr>item_id = 3, item_quantity = 4\<rparr>"
       and NEW = "\<lparr>item_id = 3, item_quantity = 4\<rparr>" and u = 9 and tbl = "[]"
       and users = "[9]" and items = "[3]" and auth_uid = None]
  by (simp add: int4_def)

subsection \<open>Reading a device's history\<close>

lemma find_by_key:
  "distinct (map user_id users) \<Longrightarrow> u \<in> set users \<Longrightarrow>
   find (\<lambda>x. user_id x = user_id u) users = Some u"
proof (induction users)
  case Nil
  then show ?case by simp
next
  case (Cons a users)
  then show ?case
    by (cases "a = u") force+
qed

text \<open>
  Claim C9. When the request succeeds, the history shown for a device is built from
  exactly the rows of the chosen ledger table whose device id is the queried id (the
  same rows with the same multiplicities), ordered newest first by creation time, and
  each entry carries the display name found by joining \<^verbatim>\<open>created_by\<close> to \<^verbatim>\<open>users\<close>: when
  a readable user row has that id (ids being unique), the entry holds that user's
  \<^verbatim>\<open>full_name\<close>.
\<close>

theorem device_history_read_path:
  "\<exists>rows.
     mset rows =
       mset (filter (\<lambda>r. device_id r = id')
               (if type' = ''cellular'' then cellular else serial)) \<and>
     sorted_wrt (\<lambda>a b. created_at b \<le> created_at a) rows \<and>
     loadDeviceHistory (Inr (Some (device_history_request type' id' users cellular serial)))
         history =
       map (\<lambda>r. \<lparr>hist_id = row_id r,
                  date = created_at r,
                  operation =
                    replace_first (CHR ''_'') (CHR '' '')
                      (transaction_type_text (transaction_type r))
                    @ '' ('' @ template_status (previous_status r)
                    @ '' '' @ right_arrow @ '' ''
                    @ device_status_text (new_status r) @ '')'',
                  user = map_option full_name (find (\<lambda>u. user_id u = created_by r) users),
                  details = notes r\<rparr>) rows \<and>
     (\<forall>r\<in>set rows. \<forall>u\<in>set users.
        distinct (map user_id users) \<longrightarrow> user_id u = created_by r \<longrightarrow>
        map_option full_name (find (\<lambda>u. user_id u = created_by r) users) =
          Some (full_name u))"
proof -
  let ?tbl = "if type' = ''cellular'' then cellular else serial"
  let ?rows = "sort_key (\<lambda>r. - created_at r) (filter (\<lambda>r. device_id r = id') ?tbl)"
  have m: "mset ?rows = mset (filter (\<lambda>r. device_id r = id') ?tbl)"
    by simp
  have "sorted (map (\<lambda>r. - created_at r) ?rows)"
    by (rule sorted_sort_key)
  then have s: "sorted_wrt (\<lambda>a b. created_at b \<le> created_at a) ?rows"
    by (simp add: sorted_map)
  have l: "loadDeviceHistory (Inr (Some (device_history_request type' id' users cellular serial)))
         history =
       map (\<lambda>r. \<lparr>hist_id = row_id r,
                  date = created_at r,
                  operation =
                    replace_first (CHR ''_'') (CHR '' '')
                      (transaction_type_text (transaction_type r))
                    @ '' ('' @ template_status (previous_status r)
                    @ '' '' @ right_arrow @ '' ''
                    @ device_status_text (new_status r) @ '')'',
                  user = map_option full_name (find (\<lambda>u. user_id u = created_by r) users),
                  details = notes r\<rparr>) ?rows"
    by (simp add: loadDeviceHistory_def device_history_request_def select_device_history_def
          comp_def)
  have j: "\<forall>r\<in>set ?rows. \<forall>u\<in>set users.
        distinct (map user_id users) \<longrightarrow> user_id u = created_by r \<longrightarrow>
        map_option full_name (find (\<lambda>u. user_id u = created_by r) users) =
          Some (full_name u)"
    using find_by_key by (metis option.simps(9))
  from m s l j show ?thesis
    by blast
qed

theorem device_history_read_path_witness:
  "loadDeviceHistory
     (Inr (Some (device_history_request ''cellular'' 1
        [\<lparr>user_id = 9, full_name = ''Ann''\<rparr>]
        [\<lparr>device_id = 1, transaction_type = T_transfer, reference_id = 1,
          previous_status = None, new_status = S_in_stock,
          notes = Some ''Device created'', created_by = 9, row_id = 100, created_at = 10\<rparr>,
         \<lparr>device_id = 2, transaction_type = T_transfer, reference_id = 2,
          previous_status = None, new_status = S_in_stock,
          notes = Some ''Device created'', created_by = 9, row_id = 101, created_at = 20\<rparr>,
         \<lparr>device_id = 1, transaction_type = T_return_in, reference_id = 1,
          previous_status = Some S_in_stock, new_status = S_returned,
          notes = None, created_by = 9, row_id = 102, created_at = 30\<rparr>]
        []))) [] =
     [\<lparr>hist_id = 102, date = 30,
       operation = ''return in (in_stock '' @ right_arrow @ '' returned)'',
       user = Some ''Ann'', details = None\<rparr>,
      \<lparr>hist_id = 100, date = 10,
       operation = ''transfer (null '' @ right_arrow @ '' in_stock)'',
       user = Some ''Ann'', details = Some ''Device created''\<rparr>]"
  using device_history_read_path
    [where type' = "''cellular''" and id' = 1
       and users = "[\<lparr>user_id = 9, full_name = ''Ann''\<rparr>]"
       and cellular =
        "[\<lparr>device_id = 1, transaction_type = T_transfer, reference_id = 1,
          previous_status = None, new_status = S_in_stock,
          notes = Some ''Device created'', created_by = 9, row_id = 100, created_at = 10\<rparr>,
         \<lparr>device_id = 2, transaction_type = T_transfer, reference_id = 2,
          previous_status = None, new_status = S_in_stock,
          notes = Some ''Device created'', created_by = 9, row_id = 101, created_at = 20\<rparr>,
         \<lparr>device_id = 1, transaction_type = T_return_in, reference_id = 1,
          previous_status = Some S_in_stock, new_status = S_returned,
          notes = None, created_by = 9, row_id = 102, created_at = 30\<rparr>]"
       and serial = "[]" and history = "[]"]
  by (simp add: loadDeviceHistory_def device_history_request_def select_device_history_def
        template_status_def)

end
